theory Spec2Isabelle
  imports Main "HOL-Library.Word"
begin

section \<open>Constants and data of the debounce sketches\<close>

text \<open>
  Both sketches (the analog one, \<^verbatim>\<open>debounce.ino\<close>, and the digital one) target an
  Arduino board: \<^verbatim>\<open>unsigned long\<close> is a 32-bit word, \<^verbatim>\<open>int\<close> holds every value that
  \<^verbatim>\<open>analogRead\<close> and \<^verbatim>\<open>digitalRead\<close> return, and \<^verbatim>\<open>uint8_t\<close> is an 8-bit word.
\<close>

definition MAX_UNSIGNED_LONG :: "32 word" where
  "MAX_UNSIGNED_LONG = 4294967295"

definition CHANGE_STATE_INTERVAL :: "32 word" where
  "CHANGE_STATE_INTERVAL = 250"

definition HIGH_THREASHOLD :: int where
  "HIGH_THREASHOLD = 500"

text \<open>
  \<^verbatim>\<open>HIGH\<close> and \<^verbatim>\<open>LOW\<close> are the pin levels of the Arduino core header (\<^verbatim>\<open>0x1\<close> and
  \<^verbatim>\<open>0x0\<close>); the header is not part of the repository.
\<close>

definition HIGH :: int where
  "HIGH = 1"

definition LOW :: int where
  "LOW = 0"

datatype DebounceState = Low | PossibleHigh | High | PossibleLow

text \<open>
  The enumerators carry their implicit values 0 to 3. The sketch compares the reading
  with the enumerator \<^verbatim>\<open>Low\<close> in the \<^verbatim>\<open>High\<close> case, and the \<^verbatim>\<open>switch\<close> selects its case
  by this value.
\<close>

fun enum_value :: "DebounceState \<Rightarrow> int" where
  "enum_value Low = 0"
| "enum_value PossibleHigh = 1"
| "enum_value High = 2"
| "enum_value PossibleLow = 3"

text \<open>
  The field \<^verbatim>\<open>can_change\<close> of \<^verbatim>\<open>ChangeAble\<close> shares its name with the function
  \<^verbatim>\<open>can_change\<close>; the field is \<open>can_change_flag\<close> here.
\<close>

record ChangeAble =
  can_change_flag :: bool
  last_time :: "32 word"

record Debouncer =
  state :: DebounceState
  change :: ChangeAble
  pin :: "8 word"

section \<open>Constructors\<close>

definition default_debounce_state :: DebounceState where
  "default_debounce_state = Low"

text \<open>
  \<^verbatim>\<open>default_change_able\<close> reads the clock with \<^verbatim>\<open>millis()\<close>; the value read is the
  argument \<open>now\<close>.
\<close>

definition default_change_able :: "32 word \<Rightarrow> ChangeAble" where
  "default_change_able now = \<lparr> can_change_flag = True, last_time = now \<rparr>"

definition new_debouncer :: "8 word \<Rightarrow> 32 word \<Rightarrow> Debouncer" where
  "new_debouncer p now =
     \<lparr> state = default_debounce_state, change = default_change_able now, pin = p \<rparr>"

section \<open>The cooldown check\<close>

text \<open>
  \<^verbatim>\<open>can_change\<close> receives the \<^verbatim>\<open>ChangeAble\<close> by value. It returns at once when the flag
  is set; only otherwise does it read the clock (\<open>current_time\<close>) and compare. The model
  returns the boolean together with the branch that was taken and the value of the
  parameter \<open>c\<close> at the return statement.
\<close>

datatype branch = Fast_path | Overflow_branch | Elapsed_branch

record can_change_exit =
  cc_branch :: branch
  cc_result :: bool
  cc_c :: ChangeAble

definition can_change :: "ChangeAble \<Rightarrow> 32 word \<Rightarrow> 32 word \<Rightarrow> can_change_exit" where
  "can_change c interval_milli_seconds current_time =
     (if can_change_flag c
      then \<lparr> cc_branch = Fast_path, cc_result = True, cc_c = c \<rparr>
      else if current_time < last_time c
      then (let total_time = MAX_UNSIGNED_LONG;
                diffrence = total_time - last_time c;
                current_total_time = diffrence + current_time
            in if current_total_time > interval_milli_seconds
               then \<lparr> cc_branch = Overflow_branch, cc_result = True,
                      cc_c = c\<lparr>can_change_flag := True\<rparr> \<rparr>
               else \<lparr> cc_branch = Overflow_branch, cc_result = False, cc_c = c \<rparr>)
      else if current_time - last_time c \<ge> interval_milli_seconds
      then \<lparr> cc_branch = Elapsed_branch, cc_result = True,
             cc_c = c\<lparr>can_change_flag := True\<rparr> \<rparr>
      else \<lparr> cc_branch = Elapsed_branch, cc_result = False, cc_c = c \<rparr>)"

section \<open>The state machine\<close>

text \<open>
  \<^verbatim>\<open>is_high\<close> receives the \<^verbatim>\<open>Debouncer\<close> by value and assigns to its fields. The model
  returns the boolean together with the value of the parameter at the return statement
  and the place of the return: inside the \<^verbatim>\<open>switch\<close>, or at the fallback after it.

  One call reads the clock at most twice: inside \<^verbatim>\<open>can_change\<close> (\<open>t_check\<close>) and inside
  \<^verbatim>\<open>default_change_able\<close> (\<open>t_reset\<close>). The serial prints are left out.
\<close>

datatype exit_point = Switch_return | Fallback_return

record is_high_exit =
  ih_exit :: exit_point
  ih_result :: bool
  ih_debouncer :: Debouncer

definition switch_return :: "bool \<Rightarrow> Debouncer \<Rightarrow> is_high_exit" where
  "switch_return b d = \<lparr> ih_exit = Switch_return, ih_result = b, ih_debouncer = d \<rparr>"

text \<open>The \<^verbatim>\<open>switch\<close> statement, the same in both sketches.\<close>

definition is_high_switch ::
  "Debouncer \<Rightarrow> int \<Rightarrow> 32 word \<Rightarrow> 32 word \<Rightarrow> is_high_exit" where
  "is_high_switch debouncer current_input t_check t_reset =
     (let s = enum_value (state debouncer) in
      if s = enum_value Low then
        (if current_input = HIGH
         then switch_return False
                (debouncer\<lparr>change := default_change_able t_reset, state := PossibleHigh\<rparr>)
         else switch_return False debouncer)
      else if s = enum_value PossibleHigh then
        (if current_input = HIGH
            \<and> cc_result (can_change (change debouncer) CHANGE_STATE_INTERVAL t_check)
         then switch_return True
                (debouncer\<lparr>state := High, change := default_change_able t_reset\<rparr>)
         else if current_input = LOW
         then switch_return False
                (debouncer\<lparr>state := Low, change := default_change_able t_reset\<rparr>)
         else switch_return False debouncer)
      else if s = enum_value High then
        (if current_input = enum_value Low
         then switch_return True
                (debouncer\<lparr>change := default_change_able t_reset, state := PossibleLow\<rparr>)
         else switch_return True debouncer)
      else if s = enum_value PossibleLow then
        (if current_input = LOW
            \<and> cc_result (can_change (change debouncer) CHANGE_STATE_INTERVAL t_check)
         then switch_return False
                (debouncer\<lparr>change := default_change_able t_reset, state := Low\<rparr>)
         else if current_input = HIGH
         then switch_return True
                (debouncer\<lparr>state := High, change := default_change_able t_reset\<rparr>)
         else switch_return True debouncer)
      else \<lparr> ih_exit = Fallback_return, ih_result = False, ih_debouncer = debouncer \<rparr>)"

text \<open>
  The analog sketch turns the sample of \<^verbatim>\<open>analogRead\<close> into a pin level before the
  \<^verbatim>\<open>switch\<close>; the digital sketch takes the level from \<^verbatim>\<open>digitalRead\<close>.
\<close>

definition is_high_input :: "int \<Rightarrow> int" where
  "is_high_input current_input = (if current_input > 155 then HIGH else LOW)"

definition is_high :: "Debouncer \<Rightarrow> int \<Rightarrow> 32 word \<Rightarrow> 32 word \<Rightarrow> is_high_exit" where
  "is_high debouncer sample t_check t_reset =
     is_high_switch debouncer (is_high_input sample) t_check t_reset"

definition is_high_digital ::
  "Debouncer \<Rightarrow> int \<Rightarrow> 32 word \<Rightarrow> 32 word \<Rightarrow> is_high_exit" where
  "is_high_digital debouncer level t_check t_reset =
     is_high_switch debouncer level t_check t_reset"

section \<open>Sequences of polls\<close>

text \<open>
  One poll is a sample and the two clock readings. The reachable debouncers are the new
  ones and every value the parameter of \<^verbatim>\<open>is_high\<close> can have at a return when the call
  started on a reachable one. The sketches call \<^verbatim>\<open>is_high\<close> on their globals only, so
  this set contains every debouncer a call of theirs can work on.
\<close>

type_synonym poll = "int \<times> 32 word \<times> 32 word"

inductive reachable :: "Debouncer \<Rightarrow> bool" where
  start: "reachable (new_debouncer p now)"
| analog_poll:
    "reachable d \<Longrightarrow> reachable (ih_debouncer (is_high d sample t_check t_reset))"
| digital_poll:
    "reachable d \<Longrightarrow> level = HIGH \<or> level = LOW
       \<Longrightarrow> reachable (ih_debouncer (is_high_digital d level t_check t_reset))"

text \<open>
  The \<^verbatim>\<open>loop\<close> of the analog sketch: it calls \<^verbatim>\<open>is_high\<close> on the global
  \<^verbatim>\<open>bend_pin_debouncer\<close>, which is copied into the parameter, and writes the level of
  pin 13 from the result. It returns that level and the global after the call.
\<close>

definition loop :: "Debouncer \<Rightarrow> int \<Rightarrow> 32 word \<Rightarrow> 32 word \<Rightarrow> int \<times> Debouncer" where
  "loop bend_pin_debouncer sample t_check t_reset =
     (let finger_should_bend = ih_result (is_high bend_pin_debouncer sample t_check t_reset)
      in (if finger_should_bend then HIGH else LOW, bend_pin_debouncer))"

text \<open>
  Passes of \<^verbatim>\<open>loop\<close> one after the other: each pass works on the global as the pass
  before left it. The values of \<^verbatim>\<open>finger_should_bend\<close> are collected in order.
\<close>

fun run_loop :: "Debouncer \<Rightarrow> poll list \<Rightarrow> bool list \<times> Debouncer" where
  "run_loop bend_pin_debouncer [] = ([], bend_pin_debouncer)"
| "run_loop bend_pin_debouncer ((sample, t_check, t_reset) # ps) =
     (let finger_should_bend = ih_result (is_high bend_pin_debouncer sample t_check t_reset);
          (outs, g) = run_loop (snd (loop bend_pin_debouncer sample t_check t_reset)) ps
      in (finger_should_bend # outs, g))"

section \<open>Facts about the cooldown check\<close>

lemma can_change_fast:
  "can_change_flag c \<Longrightarrow>
     can_change c i t = \<lparr> cc_branch = Fast_path, cc_result = True, cc_c = c \<rparr>"
  by (simp add: can_change_def)

text \<open>
  With the flag clear, the two arithmetic branches compare differently: the branch for a
  wrapped clock asks for strictly more than the interval, the other for at least the
  interval.
\<close>

lemma can_change_overflow_branch:
  assumes "\<not> can_change_flag c" and "t < last_time c"
  shows "cc_result (can_change c i t) = (i < (MAX_UNSIGNED_LONG - last_time c) + t)"
    and "cc_branch (can_change c i t) = Overflow_branch"
  using assms by (simp_all add: can_change_def Let_def)

lemma can_change_elapsed_branch:
  assumes "\<not> can_change_flag c" and "\<not> t < last_time c"
  shows "cc_result (can_change c i t) = (i \<le> t - last_time c)"
    and "cc_branch (can_change c i t) = Elapsed_branch"
  using assms by (simp_all add: can_change_def Let_def)

lemma can_change_wrapped_at_4294967200:
  "cc_result (can_change \<lparr> can_change_flag = False, last_time = 4294967200 \<rparr> 250 now)
     = (156 \<le> now \<and> now < 4294967200)"
  apply (simp add: can_change_def MAX_UNSIGNED_LONG_def Let_def)
  apply (simp add: word_le_nat_alt word_less_nat_alt unat_sub_if' unat_word_ariths)
  apply unat_arith
  apply simp
  done

section \<open>Facts about one poll\<close>

lemma is_high_switch_change:
  "change (ih_debouncer (is_high_switch d r tc tr)) = change d
   \<or> change (ih_debouncer (is_high_switch d r tc tr)) = default_change_able tr"
  by (cases "state d") (simp_all add: is_high_switch_def switch_return_def Let_def)

lemma is_high_switch_keeps_flag:
  assumes "can_change_flag (change d)"
  shows "can_change_flag (change (ih_debouncer (is_high_switch d r tc tr)))"
proof -
  from is_high_switch_change [of d r tc tr] show ?thesis
  proof
    assume "change (ih_debouncer (is_high_switch d r tc tr)) = change d"
    with assms show ?thesis by simp
  next
    assume "change (ih_debouncer (is_high_switch d r tc tr)) = default_change_able tr"
    then show ?thesis by (simp add: default_change_able_def)
  qed
qed

lemma is_high_switch_exit:
  "ih_exit (is_high_switch d r tc tr) = Switch_return"
  by (cases "state d") (simp_all add: is_high_switch_def switch_return_def Let_def)

text \<open>The four rows of the transition table, as the \<^verbatim>\<open>switch\<close> computes them.\<close>

lemma low_row:
  assumes "state d = Low"
  shows "is_high_switch d HIGH tc tr =
           switch_return False (d\<lparr>change := default_change_able tr, state := PossibleHigh\<rparr>)"
    and "is_high_switch d LOW tc tr = switch_return False d"
  using assms by (simp_all add: is_high_switch_def HIGH_def LOW_def)

lemma possible_high_row:
  assumes "state d = PossibleHigh"
  shows "is_high_switch d HIGH tc tr =
           (if cc_result (can_change (change d) CHANGE_STATE_INTERVAL tc)
            then switch_return True (d\<lparr>state := High, change := default_change_able tr\<rparr>)
            else switch_return False d)"
    and "is_high_switch d LOW tc tr =
           switch_return False (d\<lparr>state := Low, change := default_change_able tr\<rparr>)"
  using assms by (simp_all add: is_high_switch_def HIGH_def LOW_def)

lemma high_row:
  assumes "state d = High"
  shows "is_high_switch d HIGH tc tr = switch_return True d"
    and "is_high_switch d LOW tc tr =
           switch_return True (d\<lparr>change := default_change_able tr, state := PossibleLow\<rparr>)"
  using assms by (simp_all add: is_high_switch_def HIGH_def LOW_def)

lemma possible_low_row:
  assumes "state d = PossibleLow"
  shows "is_high_switch d HIGH tc tr =
           switch_return True (d\<lparr>state := High, change := default_change_able tr\<rparr>)"
    and "is_high_switch d LOW tc tr =
           (if cc_result (can_change (change d) CHANGE_STATE_INTERVAL tc)
            then switch_return False (d\<lparr>change := default_change_able tr, state := Low\<rparr>)
            else switch_return True d)"
  using assms by (simp_all add: is_high_switch_def HIGH_def LOW_def)

section \<open>Facts about poll sequences\<close>

lemma reachable_flag:
  "reachable d \<Longrightarrow> can_change_flag (change d)"
proof (induction rule: reachable.induct)
  case (start p now)
  show ?case by (simp add: new_debouncer_def default_change_able_def)
next
  case (analog_poll d sample t_check t_reset)
  from analog_poll.IH show ?case
    unfolding is_high_def by (rule is_high_switch_keeps_flag)
next
  case (digital_poll d level t_check t_reset)
  from digital_poll.IH show ?case
    unfolding is_high_digital_def by (rule is_high_switch_keeps_flag)
qed

text \<open>
  In the sketch as it is, the global stays the new debouncer, and pin 13 is written low
  on every pass.
\<close>

lemma loop_keeps_global:
  "snd (loop g sample tc tr) = g"
  by (simp add: loop_def)

lemma loop_writes_low:
  "fst (loop (new_debouncer p t0) sample tc tr) = LOW"
  by (simp add: loop_def is_high_def is_high_switch_def switch_return_def new_debouncer_def
        default_debounce_state_def)

text \<open>A call on a debouncer in \<^verbatim>\<open>Low\<close> returns false, whatever the sample.\<close>

lemma is_high_in_low:
  "state g = Low \<Longrightarrow> ih_result (is_high g sample tc tr) = False"
  by (simp add: is_high_def is_high_switch_def switch_return_def)

section \<open>The claims\<close>

subsection \<open>Noise rejection\<close>

text \<open>
  Claim C1: when the debouncer is in \<^verbatim>\<open>Low\<close>, a pulse of high samples followed by low
  ones leaves it in \<^verbatim>\<open>Low\<close> and every poll of the sequence returns false. In the sketch
  \<^verbatim>\<open>loop\<close> hands the global to \<^verbatim>\<open>is_high\<close> by value, so the global is the same after
  every pass; this holds for every sequence of samples and clock readings, the short
  pulses among them.
\<close>

theorem short_pulse_stays_low:
  assumes "state g = Low"
  shows "run_loop g ps = (replicate (length ps) False, g)"
proof (induction ps)
  case Nil
  show ?case by simp
next
  case (Cons x ps)
  obtain sample tc tr where x: "x = (sample, tc, tr)"
    by (cases x) auto
  from assms have "ih_result (is_high g sample tc tr) = False"
    by (rule is_high_in_low)
  with Cons.IH x show ?case
    by (simp add: loop_keeps_global)
qed

theorem short_pulse_stays_low_witness:
  "state (new_debouncer 17 0) = Low
   \<and> run_loop (new_debouncer 17 0) [(1023, 1, 1), (1023, 2, 2), (0, 3, 3)]
       = ([False, False, False], new_debouncer 17 0)"
proof -
  have low: "state (new_debouncer 17 0) = Low"
    by (simp add: new_debouncer_def default_debounce_state_def)
  from short_pulse_stays_low [OF low, of "[(1023, 1, 1), (1023, 2, 2), (0, 3, 3)]"] low
  show ?thesis by simp
qed

subsection \<open>The row of \<^verbatim>\<open>PossibleHigh\<close>\<close>

text \<open>
  Claim C2: in \<^verbatim>\<open>PossibleHigh\<close> a high reading should lead to \<^verbatim>\<open>High\<close> with result true
  only when at least \<^verbatim>\<open>CHANGE_STATE_INTERVAL\<close> milliseconds have passed since the last
  transition, and otherwise leave the state alone with result false. The sketch, polled
  in \<^verbatim>\<open>PossibleHigh\<close> one millisecond after a transition recorded at 0 with the flag set (as
  every transition leaves it), moves to \<^verbatim>\<open>High\<close> and answers true.
\<close>

theorem possible_high_commits_after_one_ms:
  "is_high_switch
     \<lparr> state = PossibleHigh, change = \<lparr> can_change_flag = True, last_time = 0 \<rparr>, pin = 17 \<rparr>
     HIGH 1 1
   = switch_return True
       \<lparr> state = High, change = \<lparr> can_change_flag = True, last_time = 1 \<rparr>, pin = 17 \<rparr>
   \<and> (1 :: 32 word) - 0 < CHANGE_STATE_INTERVAL"
  by (simp add: is_high_switch_def switch_return_def can_change_def default_change_able_def
        CHANGE_STATE_INTERVAL_def HIGH_def LOW_def)

subsection \<open>The gate is reset on every transition\<close>

text \<open>
  Claim C3: whenever a poll changes the state, whichever of the six transitions it is,
  the \<^verbatim>\<open>ChangeAble\<close> of the debouncer afterwards has its flag set and holds the clock
  reading taken at the reset; a new debouncer has a \<^verbatim>\<open>ChangeAble\<close> of the same form.
\<close>

theorem gate_reset_on_every_transition:
  "(state (ih_debouncer (is_high_switch d r tc tr)) \<noteq> state d \<longrightarrow>
      change (ih_debouncer (is_high_switch d r tc tr))
        = \<lparr> can_change_flag = True, last_time = tr \<rparr>)
   \<and> change (new_debouncer p now) = \<lparr> can_change_flag = True, last_time = now \<rparr>"
proof
  show "state (ih_debouncer (is_high_switch d r tc tr)) \<noteq> state d \<longrightarrow>
      change (ih_debouncer (is_high_switch d r tc tr))
        = \<lparr> can_change_flag = True, last_time = tr \<rparr>"
    by (cases "state d")
      (simp_all add: is_high_switch_def switch_return_def default_change_able_def)
next
  show "change (new_debouncer p now) = \<lparr> can_change_flag = True, last_time = now \<rparr>"
    by (simp add: new_debouncer_def default_change_able_def)
qed

theorem gate_reset_on_every_transition_witness:
  "state (ih_debouncer (is_high_switch (new_debouncer 17 0) HIGH 5 6)) \<noteq> state (new_debouncer 17 0)
   \<and> change (ih_debouncer (is_high_switch (new_debouncer 17 0) HIGH 5 6))
       = \<lparr> can_change_flag = True, last_time = 6 \<rparr>"
proof -
  have moved:
    "state (ih_debouncer (is_high_switch (new_debouncer 17 0) HIGH 5 6))
       \<noteq> state (new_debouncer 17 0)"
    by (simp add: is_high_switch_def switch_return_def new_debouncer_def
          default_debounce_state_def)
  with gate_reset_on_every_transition [of "new_debouncer 17 0" HIGH 5 6]
  show ?thesis by blast
qed

subsection \<open>The flag is set in every reachable state\<close>

text \<open>
  Claim C4: in every debouncer reachable from \<^verbatim>\<open>new_debouncer\<close> by polls, the flag of the
  \<^verbatim>\<open>ChangeAble\<close> is set; so \<^verbatim>\<open>can_change\<close> on it, for any interval and any clock reading,
  returns true by its first branch, leaves the \<^verbatim>\<open>ChangeAble\<close> as it was, and takes neither
  the branch for elapsed time nor the one for a wrapped clock.
\<close>

theorem reachable_takes_fast_path:
  assumes "reachable d"
  shows "can_change_flag (change d)
     \<and> can_change (change d) i t
         = \<lparr> cc_branch = Fast_path, cc_result = True, cc_c = change d \<rparr>
     \<and> cc_branch (can_change (change d) i t) \<noteq> Elapsed_branch
     \<and> cc_branch (can_change (change d) i t) \<noteq> Overflow_branch"
proof -
  from assms have flag: "can_change_flag (change d)" by (rule reachable_flag)
  then have "can_change (change d) i t
      = \<lparr> cc_branch = Fast_path, cc_result = True, cc_c = change d \<rparr>"
    by (rule can_change_fast)
  with flag show ?thesis by simp
qed

theorem reachable_takes_fast_path_witness:
  "reachable (ih_debouncer (is_high (new_debouncer 17 0) 1023 1 1))
   \<and> can_change (change (ih_debouncer (is_high (new_debouncer 17 0) 1023 1 1)))
       CHANGE_STATE_INTERVAL 2
     = \<lparr> cc_branch = Fast_path, cc_result = True,
         cc_c = \<lparr> can_change_flag = True, last_time = 1 \<rparr> \<rparr>"
proof -
  have r: "reachable (ih_debouncer (is_high (new_debouncer 17 0) 1023 1 1))"
    by (rule reachable.analog_poll) (rule reachable.start)
  have c: "change (ih_debouncer (is_high (new_debouncer 17 0) 1023 1 1))
             = \<lparr> can_change_flag = True, last_time = 1 \<rparr>"
    by (simp add: is_high_def is_high_input_def is_high_switch_def switch_return_def
          new_debouncer_def default_debounce_state_def default_change_able_def HIGH_def)
  from reachable_takes_fast_path [OF r, of CHANGE_STATE_INTERVAL 2] r c
  show ?thesis by simp
qed

subsection \<open>The result tells the state\<close>

text \<open>
  Claim C5: after any poll, from any debouncer and with any reading, the boolean
  returned is true exactly when the state left behind is \<^verbatim>\<open>High\<close> or \<^verbatim>\<open>PossibleLow\<close>, and
  false exactly when it is \<^verbatim>\<open>Low\<close> or \<^verbatim>\<open>PossibleHigh\<close>. This holds for every debouncer, so
  for the reachable ones.
\<close>

theorem result_iff_high_or_possible_low:
  "ih_result (is_high_switch d r tc tr)
     = (state (ih_debouncer (is_high_switch d r tc tr)) = High
        \<or> state (ih_debouncer (is_high_switch d r tc tr)) = PossibleLow)
   \<and> (\<not> ih_result (is_high_switch d r tc tr))
     = (state (ih_debouncer (is_high_switch d r tc tr)) = Low
        \<or> state (ih_debouncer (is_high_switch d r tc tr)) = PossibleHigh)"
  by (cases "state d") (simp_all add: is_high_switch_def switch_return_def)

subsection \<open>The check across a wrap of the clock\<close>

text \<open>
  Claim C6: with the flag clear and the clock wrapped, the check should succeed exactly
  when \<^verbatim>\<open>(MAX_UNSIGNED_LONG - last_time) + now\<close> is at least the interval, so for a last
  transition at 4294967200 and an interval of 250 from the reading 155 on. The sketch
  compares with \<^verbatim>\<open>>\<close> in this branch: at the reading 155 the sum is 250 and the check
  fails; it succeeds at 156.
\<close>

theorem can_change_wrapped_fails_at_155:
  "cc_result (can_change \<lparr> can_change_flag = False, last_time = 4294967200 \<rparr> 250 155) = False
   \<and> (MAX_UNSIGNED_LONG - 4294967200) + 155 = (250 :: 32 word)
   \<and> cc_result (can_change \<lparr> can_change_flag = False, last_time = 4294967200 \<rparr> 250 156) = True"
  by (simp add: can_change_def MAX_UNSIGNED_LONG_def)

subsection \<open>Leaving \<^verbatim>\<open>PossibleLow\<close>\<close>

text \<open>
  Claim C7: from \<^verbatim>\<open>PossibleLow\<close> one high reading leads to \<^verbatim>\<open>High\<close> at once, while the
  way to \<^verbatim>\<open>Low\<close> should need a low reading with at least \<^verbatim>\<open>CHANGE_STATE_INTERVAL\<close>
  milliseconds passed since the last transition. The first half is \<open>possible_low_row\<close>.
  For the second the sketch, polled in \<^verbatim>\<open>PossibleLow\<close> with a low reading one millisecond
  after a transition recorded at 0 with the flag set, moves to \<^verbatim>\<open>Low\<close> and answers false.
\<close>

theorem possible_low_commits_after_one_ms:
  "is_high_switch
     \<lparr> state = PossibleLow, change = \<lparr> can_change_flag = True, last_time = 0 \<rparr>, pin = 17 \<rparr>
     LOW 1 1
   = switch_return False
       \<lparr> state = Low, change = \<lparr> can_change_flag = True, last_time = 1 \<rparr>, pin = 17 \<rparr>
   \<and> (1 :: 32 word) - 0 < CHANGE_STATE_INTERVAL"
  by (simp add: is_high_switch_def switch_return_def can_change_def default_change_able_def
        CHANGE_STATE_INTERVAL_def HIGH_def LOW_def)

subsection \<open>The fast path of the check\<close>

text \<open>
  Claim C8: a set flag makes \<^verbatim>\<open>can_change\<close> return true by its first branch, and a
  check that succeeded should make every later check on the same gate return true by
  that branch. The first half is \<open>can_change_fast\<close>. For the second, \<^verbatim>\<open>can_change\<close> gets
  the \<^verbatim>\<open>ChangeAble\<close> by value and sets the flag on its copy, so the caller's gate is the
  same at the next check. With the flag clear and a last transition at 0, the check at
  300 succeeds and the check at 301 on the same gate goes through the comparison of
  elapsed time again. With a last transition at 4294967045 the check at 4294967295
  succeeds and the check one millisecond later, at 0 after the wrap, returns false.
\<close>

theorem successful_check_is_not_kept:
  "cc_result (can_change \<lparr> can_change_flag = False, last_time = 0 \<rparr> 250 300)
   \<and> cc_branch (can_change \<lparr> can_change_flag = False, last_time = 0 \<rparr> 250 301)
       = Elapsed_branch
   \<and> cc_result (can_change \<lparr> can_change_flag = False, last_time = 4294967045 \<rparr> 250 4294967295)
   \<and> \<not> cc_result (can_change \<lparr> can_change_flag = False, last_time = 4294967045 \<rparr> 250 0)"
  by (simp add: can_change_def MAX_UNSIGNED_LONG_def)

subsection \<open>Every poll returns inside the \<^verbatim>\<open>switch\<close>\<close>

text \<open>
  Claim C9: for each of the four states, each reading and each value of the flag, a poll
  returns from one of the four cases of the \<^verbatim>\<open>switch\<close> with a boolean and a next state;
  the fallback after the \<^verbatim>\<open>switch\<close> is never the place of return. It holds for the
  \<^verbatim>\<open>switch\<close> with any reading, and so for both sketches.
\<close>

theorem fallback_never_reached:
  "ih_exit (is_high_switch d r tc tr) = Switch_return
   \<and> ih_exit (is_high d sample tc tr) = Switch_return
   \<and> ih_exit (is_high_digital d level tc tr) = Switch_return
   \<and> is_high_switch d r tc tr
       = switch_return (ih_result (is_high_switch d r tc tr))
           (ih_debouncer (is_high_switch d r tc tr))"
proof -
  have "is_high_switch d r tc tr
       = switch_return (ih_result (is_high_switch d r tc tr))
           (ih_debouncer (is_high_switch d r tc tr))"
    using is_high_switch_exit [of d r tc tr]
    by (cases "is_high_switch d r tc tr") (simp add: switch_return_def)
  then show ?thesis
    by (simp add: is_high_def is_high_digital_def is_high_switch_exit)
qed

subsection \<open>From the analog sample to the reading\<close>

text \<open>
  Claim C10: the reading given to the state machine should be high exactly when the
  analog sample is above the threshold constant. The sketch declares
  \<^verbatim>\<open>HIGH_THREASHOLD = 500\<close> and compares the sample with the literal 155 instead: the
  sample 200 is not above the constant, and the reading is high.
\<close>

theorem sample_200_reads_high:
  "is_high_input 200 = HIGH \<and> \<not> 200 > HIGH_THREASHOLD"
  by (simp add: is_high_input_def HIGH_THREASHOLD_def)

end
